theory Spec2Isabelle
  imports Complex_Main "HOL-Library.Sublist" "HOL-Library.AList" "HOL-Library.Multiset"
    "HOL-Library.Log_Nat"
begin

text \<open>
  The Enhanced Code Interpreter tool (\<open>src/tools/enhanced_code_interpreter.py\<close>): the
  class \<open>Tools\<close> with its per-caller persistent namespaces and execution counters, the
  methods \<open>execute_code\<close>, \<open>view_state\<close> and \<open>clear_state\<close>, and the two helpers
  \<open>_quick_stats\<close> and \<open>_as_table\<close>. The Python interpreter itself (\<open>exec\<close>, \<open>__import__\<close>,
  \<open>repr\<close>) is a parameter of the model: a call is given what the interpreter answers.
  Names that begin with an underscore in the source are written without it.
\<close>

section \<open>Python strings and dictionaries\<close>

text \<open>
  A Python \<open>str\<close> is modelled as a \<open>string\<close>: one character per code point, for the
  code points below 256. The only code point above that in the literals of the source
  is the dash U+2014 of the timing line; it is written as the three characters of its
  UTF-8 encoding, which changes only the length of that line.

  A Python \<open>dict\<close> is an association list with distinct keys, in insertion order:
  \<open>map_of d k\<close> is the lookup \<open>d.get(k)\<close>, \<open>AList.update k v d\<close> is the assignment
  \<open>d[k] = v\<close> (it overwrites in place or appends at the end, as Python does).
\<close>

type_synonym 'v dict = "(string \<times> 'v) list"

definition em_dash :: string where
  "em_dash = [CHR 0xE2, CHR 0x80, CHR 0x94]"

text \<open>\<open>str.isspace\<close> on code points below 256, the characters \<open>str.strip()\<close> removes.\<close>

definition is_space :: "char \<Rightarrow> bool" where
  "is_space c = (let n = (of_char c :: nat) in
     (9 \<le> n \<and> n \<le> 13) \<or> (28 \<le> n \<and> n \<le> 32) \<or> n = 133 \<or> n = 160)"

definition strip :: "string \<Rightarrow> string" where
  "strip s = rev (dropWhile is_space (rev (dropWhile is_space s)))"

text \<open>\<open>s.split(c)\<close> for a one-character separator: never the empty list.\<close>

fun split_on :: "char \<Rightarrow> string \<Rightarrow> string list" where
  "split_on c [] = [[]]"
| "split_on c (x # xs) =
     (let r = split_on c xs in if x = c then [] # r else (x # hd r) # tl r)"

text \<open>
  The idiom \<open>[p.strip() for p in s.split(",") if p.strip()]\<close>, used for the denylist,
  the module list and the persistence list.
\<close>

definition comma_entries :: "string \<Rightarrow> string list" where
  "comma_entries s = filter (\<lambda>p. p \<noteq> []) (map strip (split_on CHR '','' s))"

text \<open>\<open>sep.join(parts)\<close>.\<close>

fun join :: "string \<Rightarrow> string list \<Rightarrow> string" where
  "join sep [] = []"
| "join sep [p] = p"
| "join sep (p # q # ps) = p @ sep @ join sep (q # ps)"

text \<open>\<open>s.ljust(w)\<close>: pads with spaces on the right up to width \<open>w\<close>.\<close>

definition ljust :: "nat \<Rightarrow> string \<Rightarrow> string" where
  "ljust w s = s @ replicate (w - length s) CHR '' ''"

text \<open>The slice \<open>s[:m]\<close> for an integer \<open>m\<close>; a negative \<open>m\<close> counts from the end.\<close>

definition slice_to :: "int \<Rightarrow> 'a list \<Rightarrow> 'a list" where
  "slice_to m s = (if 0 \<le> m then take (nat m) s else take (length s - nat (- m)) s)"

subsection \<open>Rendering integers\<close>

definition digit :: "nat \<Rightarrow> char" where
  "digit d = char_of (48 + d)"

text \<open>\<open>str(n)\<close> for a natural number: its decimal digits.\<close>

function str_nat :: "nat \<Rightarrow> string" where
  "str_nat n = (if n < 10 then [digit n] else str_nat (n div 10) @ [digit (n mod 10)])"
  by pat_completeness auto
termination
  by (relation "measure id") auto

declare str_nat.simps [simp del]

definition str_int :: "int \<Rightarrow> string" where
  "str_int i = (if i < 0 then CHR ''-'' # str_nat (nat (- i)) else str_nat (nat i))"

text \<open>The format \<open>{n:,}\<close>: the digits in groups of three from the right.\<close>

function group3 :: "string \<Rightarrow> string" where
  "group3 ds = (if length ds \<le> 3 then ds
     else group3 (take (length ds - 3) ds) @ CHR '','' # drop (length ds - 3) ds)"
  by pat_completeness auto
termination
  by (relation "measure length") auto

declare group3.simps [simp del]

definition str_commas :: "nat \<Rightarrow> string" where
  "str_commas n = group3 (str_nat n)"

text \<open>
  The format \<open>{elapsed:.3f}\<close> of a duration, given in milliseconds as that format
  rounds it: the seconds, a point, and three digits.
\<close>

definition str_ms :: "nat \<Rightarrow> string" where
  "str_ms ms = str_nat (ms div 1000) @ CHR ''.'' #
     [digit (ms mod 1000 div 100), digit (ms mod 100 div 10), digit (ms mod 10)]"

section \<open>The interpreter, its values and its configuration\<close>

text \<open>
  The values a namespace can hold: the \<open>__builtins__\<close> object, a module, the two
  injected helpers, and any other object.
\<close>

datatype 'a pyval = Builtins | Module string | QuickStats | AsTable | Obj 'a

text \<open>
  What the coordinator finds when \<open>asyncio.wait_for(asyncio.to_thread(_run), timeout)\<close>
  returns or raises:
  \<^item> \<open>Finished\<close>: the snippet ran to its end;
  \<^item> \<open>Raised tb\<close>: it raised an \<open>Exception\<close>, with \<open>traceback.format_exc()\<close> = \<open>tb\<close>;
  \<^item> \<open>TimedOut\<close>: the wait raised \<open>asyncio.TimeoutError\<close>, the worker did not finish
    within the configured time;
  \<^item> \<open>Escaped\<close>: it raised a \<open>BaseException\<close> that is not an \<open>Exception\<close>
    (\<open>SystemExit\<close>, \<open>KeyboardInterrupt\<close>), which \<open>except Exception\<close> does not catch.
  With it come the contents of the output buffer, the namespace dictionary (which
  \<open>exec\<close> mutates in place, so after a timeout it holds what the snippet had bound so
  far) and the elapsed time.
\<close>

datatype outcome = Finished | Raised string | TimedOut | Escaped

record 'a observation =
  outcome :: outcome
  stdout :: string
  ns_after :: "'a pyval dict"
  elapsed_ms :: nat

text \<open>
  The Python runtime the tool calls into: \<open>__import__\<close> (\<open>None\<close> is \<open>ImportError\<close>),
  \<open>exec\<close> under the worker and its timeout (in seconds), \<open>repr\<close>,
  \<open>type(v).__name__\<close> and \<open>sys.getsizeof\<close>.
\<close>

record 'a world =
  py_import :: "string \<Rightarrow> 'a pyval option"
  py_exec :: "string \<Rightarrow> 'a pyval dict \<Rightarrow> int \<Rightarrow> 'a observation"
  py_repr :: "'a pyval \<Rightarrow> string"
  py_type_name :: "'a pyval \<Rightarrow> string"
  py_getsizeof :: "'a pyval \<Rightarrow> nat"

record Valves =
  max_execution_time :: int
  max_output_length :: int
  sandbox_mode :: bool
  auto_imports :: string
  blocked_patterns :: string

definition default_valves :: Valves where
  "default_valves = \<lparr>
     max_execution_time = 30,
     max_output_length = 10000,
     sandbox_mode = True,
     auto_imports = ''math,random,json,datetime,collections,itertools,re,statistics,textwrap,functools,hashlib,base64'',
     blocked_patterns = ''import os,import subprocess,import shutil,import socket,import http.client,__import__,importlib,open(,compile('' \<rparr>"

text \<open>The bounds of the \<open>Field\<close> declarations, checked when the valves are loaded.\<close>

definition valves_ok :: "Valves \<Rightarrow> bool" where
  "valves_ok v = (1 \<le> max_execution_time v \<and> max_execution_time v \<le> 120 \<and>
     100 \<le> max_output_length v \<and> max_output_length v \<le> 100000)"

text \<open>
  The \<open>__user__\<close> dictionary of the host: its \<open>"id"\<close>, and its \<open>"valves"\<close> entry when
  there is one, which is a \<open>UserValves\<close> object or some object without the attribute
  \<open>show_execution_time\<close>. An absent or empty \<open>__user__\<close> is \<open>None\<close>.
\<close>

datatype valves_obj = UserValves bool | OtherObject

record user =
  user_id :: string
  user_valves :: "valves_obj option"

text \<open>The status dictionaries sent to \<open>__event_emitter__\<close>: description and done.\<close>

datatype status = Status string bool

definition emit :: "bool \<Rightarrow> status \<Rightarrow> status list" where
  "emit emitter ev = (if emitter then [ev] else [])"

datatype exn = BaseException

section \<open>The tool\<close>

record 'a Tools =
  valves :: Valves
  state :: "string \<rightharpoonup> 'a pyval dict"
  exec_counts :: "string \<rightharpoonup> int"

definition init :: "'a Tools" where
  "init = \<lparr> valves = default_valves, state = Map.empty, exec_counts = Map.empty \<rparr>"

definition uid :: "user option \<Rightarrow> string" where
  "uid u = (case u of Some d \<Rightarrow> user_id d | None \<Rightarrow> ''_anon'')"

definition user_state :: "string \<Rightarrow> 'a Tools \<Rightarrow> 'a Tools \<times> 'a pyval dict" where
  "user_state u self =
     (case state self u of
        None \<Rightarrow> (self\<lparr>state := (state self)(u \<mapsto> [])\<rparr>, [])
      | Some d \<Rightarrow> (self, d))"

definition blocked :: "Valves \<Rightarrow> string list" where
  "blocked v = comma_entries (blocked_patterns v)"

definition validate :: "Valves \<Rightarrow> string \<Rightarrow> string list" where
  "validate v code =
     (if \<not> sandbox_mode v then []
      else map (\<lambda>p. ''Blocked: `'' @ p @ ''`'') (filter (\<lambda>p. sublist p code) (blocked v)))"

fun load_modules :: "'a world \<Rightarrow> string list \<Rightarrow> 'a pyval dict \<Rightarrow> 'a pyval dict" where
  "load_modules w [] ns = ns"
| "load_modules w (mod_name # rest) ns =
     (case py_import w mod_name of
        Some m \<Rightarrow> load_modules w rest (AList.update mod_name m ns)
      | None \<Rightarrow> load_modules w rest ns)"

text \<open>\<open>ns.update(other)\<close>.\<close>

fun dict_update :: "'v dict \<Rightarrow> 'v dict \<Rightarrow> 'v dict" where
  "dict_update ns [] = ns"
| "dict_update ns ((k, v) # kvs) = dict_update (AList.update k v ns) kvs"

definition build_namespace :: "'a world \<Rightarrow> Valves \<Rightarrow> 'a pyval dict \<Rightarrow> 'a pyval dict" where
  "build_namespace w v persisted =
     (let ns = [(''__builtins__'', Builtins)];
          ns = load_modules w (comma_entries (auto_imports v)) ns;
          ns = dict_update ns persisted;
          ns = AList.update ''quick_stats'' QuickStats ns;
          ns = AList.update ''as_table'' AsTable ns
      in ns)"

text \<open>The loop that persists the requested variables: the stored dictionary and \<open>saved\<close>.\<close>

fun persist :: "'v dict \<Rightarrow> string list \<Rightarrow> 'v dict \<Rightarrow> string list \<Rightarrow> 'v dict \<times> string list" where
  "persist ns [] st saved = (st, saved)"
| "persist ns (name # names) st saved =
     (case map_of ns name of
        Some v \<Rightarrow>
          if \<not> prefix ''_'' name
          then persist ns names (AList.update name v st) (saved @ [name])
          else persist ns names st saved
      | None \<Rightarrow> persist ns names st saved)"

text \<open>The text of the output block: lines 184 to 186 of the source.\<close>

definition output_text :: "int \<Rightarrow> string \<Rightarrow> string" where
  "output_text m out =
     slice_to m out @
     (if int (length out) > m
      then ''\<newline>... truncated ('' @ str_commas (length out) @ '' total chars)''
      else [])"

definition show_time :: "user option \<Rightarrow> bool" where
  "show_time u =
     (case u of
        Some d \<Rightarrow> (case user_valves d of Some (UserValves b) \<Rightarrow> b | _ \<Rightarrow> True)
      | None \<Rightarrow> True)"

text \<open>The response parts, in the order the source appends them.\<close>

definition build_response ::
  "Valves \<Rightarrow> user option \<Rightarrow> string \<Rightarrow> string option \<Rightarrow> string list \<Rightarrow> int \<Rightarrow> nat \<Rightarrow> string list" where
  "build_response v u out error saved cnt ms =
     (let parts = [];
          parts = (if out \<noteq> []
                   then parts @ [''**Output:**\<newline>```\<newline>'' @ output_text (max_output_length v) out @ ''\<newline>```'']
                   else parts);
          parts = (case error of
                     Some e \<Rightarrow> if e \<noteq> [] then parts @ [''**Error:**\<newline>```\<newline>'' @ e @ ''\<newline>```''] else parts
                   | None \<Rightarrow> parts);
          parts = (if saved \<noteq> []
                   then parts @ [''**Saved:** '' @ join '', '' (map (\<lambda>n. ''`'' @ n @ ''`'') saved)]
                   else parts);
          parts = (if show_time u
                   then parts @ [''*Execution #'' @ str_int cnt @ '' '' @ em_dash @ '' '' @ str_ms ms @ ''s*'']
                   else parts);
          parts = (if parts = [] then parts @ [''*Executed successfully (no output).*''] else parts)
      in parts)"

text \<open>
  The \<open>error\<close> variable after the \<open>try\<close> around the wait: the timeout message, the
  traceback, or \<open>None\<close>.
\<close>

definition error_of :: "Valves \<Rightarrow> outcome \<Rightarrow> string option" where
  "error_of v oc =
     (case oc of
        TimedOut \<Rightarrow> Some (''Timed out after '' @ str_int (max_execution_time v) @ ''s'')
      | Raised tb \<Rightarrow> Some tb
      | _ \<Rightarrow> None)"

definition execute_code ::
  "'a world \<Rightarrow> string \<Rightarrow> string \<Rightarrow> user option \<Rightarrow> bool \<Rightarrow> 'a Tools
     \<Rightarrow> 'a Tools \<times> (exn + string) \<times> status list" where
  "execute_code w code save_vars u emitter self0 =
     (let i = uid u;
          (self, st) = user_state i self0;
          ev = emit emitter (Status ''Validating...'' False);
          issues = validate (valves self) code
      in if issues \<noteq> []
         then (self,
               Inr (''**Sandbox violation:**\<newline>'' @ join ''\<newline>'' (map (\<lambda>i. ''- '' @ i) issues)),
               ev @ emit emitter (Status ''Blocked'' True))
         else
           let ev = ev @ emit emitter (Status ''Running...'' False);
               ns = build_namespace w (valves self) st;
               obs = py_exec w code ns (max_execution_time (valves self))
           in case outcome obs of
                Escaped \<Rightarrow> (self, Inl BaseException, ev)
              | _ \<Rightarrow>
                let error = error_of (valves self) (outcome obs);
                    (st, saved) = (if save_vars \<noteq> []
                                   then persist (ns_after obs) (comma_entries save_vars) st []
                                   else (st, []));
                    self = self\<lparr>state := (state self)(i \<mapsto> st)\<rparr>;
                    cnt = (case exec_counts self i of Some c \<Rightarrow> c | None \<Rightarrow> 0) + 1;
                    self = self\<lparr>exec_counts := (exec_counts self)(i \<mapsto> cnt)\<rparr>;
                    parts = build_response (valves self) u (stdout obs) error saved cnt (elapsed_ms obs);
                    label = (if error \<noteq> None \<and> error \<noteq> Some []
                             then ''Error'' else ''Done ('' @ str_ms (elapsed_ms obs) @ ''s)'')
                in (self, Inr (join ''\<newline>\<newline>'' parts), ev @ emit emitter (Status label True)))"




subsection \<open>Sequences of calls\<close>








text \<open>
  The part of the tool that belongs to caller \<open>i\<close>: the valves (shared, and changed by no
  call), the persistent namespace (empty when not yet created) and the counter
  (\<open>self._exec_counts.get(uid, 0)\<close>).
\<close>

definition namespace_of :: "'a Tools \<Rightarrow> string \<Rightarrow> 'a pyval dict" where
  "namespace_of self i = (case state self i of Some d \<Rightarrow> d | None \<Rightarrow> [])"

definition counter_of :: "'a Tools \<Rightarrow> string \<Rightarrow> int" where
  "counter_of self i = (case exec_counts self i of Some c \<Rightarrow> c | None \<Rightarrow> 0)"


text \<open>
  What a call of \<open>execute_code\<close> finds when it runs the snippet: the runtime's answer on
  the namespace built from the caller's persistent namespace, under the configured timeout.
\<close>

definition observe :: "'a world \<Rightarrow> 'a Tools \<Rightarrow> string \<Rightarrow> user option \<Rightarrow> 'a observation" where
  "observe w self code u =
     py_exec w code (build_namespace w (valves self) (namespace_of self (uid u)))
       (max_execution_time (valves self))"

section \<open>The helpers injected into the namespace\<close>

subsection \<open>Python's true division of integers\<close>


definition pow2 :: "int \<Rightarrow> rat" where
  "pow2 k = (if 0 \<le> k then 2 ^ nat k else 1 / 2 ^ nat (- k))"





subsection \<open>The numeric summary\<close>






subsection \<open>The tabular formatter\<close>

text \<open>
  The rows of \<open>as_table\<close> are dictionaries with string keys (\<open>h.ljust\<close> needs them);
  \<open>str_of\<close> is Python's \<open>str\<close> on the values. \<open>cell\<close> is \<open>str(row.get(h, ""))\<close>.
\<close>

definition cell :: "('v \<Rightarrow> string) \<Rightarrow> 'v dict \<Rightarrow> string \<Rightarrow> string" where
  "cell str_of row h = (case map_of row h of Some v \<Rightarrow> str_of v | None \<Rightarrow> [])"

text \<open>\<open>max(len(str(h)), *(len(str(row.get(h, ""))) for row in data))\<close>.\<close>

definition col_width :: "('v \<Rightarrow> string) \<Rightarrow> 'v dict list \<Rightarrow> string \<Rightarrow> nat" where
  "col_width str_of data h = fold max (map (\<lambda>row. length (cell str_of row h)) data) (length h)"

definition table_row :: "string list \<Rightarrow> string" where
  "table_row cells = ''| '' @ join '' | '' cells @ '' |''"

definition table_lines :: "('v \<Rightarrow> string) \<Rightarrow> 'v dict list \<Rightarrow> string \<Rightarrow> string list" where
  "table_lines str_of data title =
     (let headers = map fst (hd data);
          widths = map (col_width str_of data) headers;
          lines = [];
          lines = (if title \<noteq> [] then lines @ [''**'' @ title @ ''**\<newline>''] else lines);
          lines = lines @ [table_row (map (\<lambda>(h, w). ljust w h) (zip headers widths))];
          lines = lines @ [table_row (map (\<lambda>w. replicate w CHR ''-'') widths)];
          lines = lines @
            map (\<lambda>row. table_row (map (\<lambda>(h, w). ljust w (cell str_of row h)) (zip headers widths))) data
      in lines)"

text \<open>\<open>as_table\<close> returns the table and prints it: the pair is (returned, printed).\<close>

definition as_table :: "('v \<Rightarrow> string) \<Rightarrow> 'v dict list \<Rightarrow> string \<Rightarrow> string \<times> string" where
  "as_table str_of data title =
     (if data = [] then (''(empty)'', [])
      else
        let result = join ''\<newline>'' (table_lines str_of data title)
        in (result, result @ ''\<newline>''))"

section \<open>Sample runs\<close>

text \<open>
  What CPython does on the snippets used below to evaluate the tool at concrete inputs;
  \<open>Obj n\<close> is the integer object \<open>n\<close>. The busy-wait snippet binds \<open>x\<close> and never
  ends, so the wait times out with \<open>x\<close> already in the namespace.
\<close>

definition sample_exec :: "string \<Rightarrow> int pyval dict \<Rightarrow> int \<Rightarrow> int observation" where
  "sample_exec code ns t =
     (if code = ''x = 1\<newline>while True: pass''
      then \<lparr>outcome = TimedOut, stdout = [],
            ns_after = AList.update ''x'' (Obj 1) ns, elapsed_ms = nat t * 1000\<rparr>
      else if code = ''x = 1; y = 2''
      then \<lparr>outcome = Finished, stdout = [],
            ns_after = AList.update ''y'' (Obj 2) (AList.update ''x'' (Obj 1) ns), elapsed_ms = 0\<rparr>
      else if code = ''secret = 42''
      then \<lparr>outcome = Finished, stdout = [],
            ns_after = AList.update ''secret'' (Obj 42) ns, elapsed_ms = 0\<rparr>
      else if code = ''print(1)''
      then \<lparr>outcome = Finished, stdout = ''1\<newline>'', ns_after = ns, elapsed_ms = 0\<rparr>
      else if code = ''print(150 * chr(97), end=str())''
      then \<lparr>outcome = Finished, stdout = replicate 150 CHR ''a'', ns_after = ns, elapsed_ms = 0\<rparr>
      else \<lparr>outcome = Finished, stdout = [], ns_after = ns, elapsed_ms = 0\<rparr>)"

definition sample_repr :: "int pyval \<Rightarrow> string" where
  "sample_repr v = (case v of Obj n \<Rightarrow> str_int n | _ \<Rightarrow> ''<object>'')"

definition sample_type_name :: "int pyval \<Rightarrow> string" where
  "sample_type_name v =
     (case v of Obj n \<Rightarrow> ''int'' | Module m \<Rightarrow> ''module'' | Builtins \<Rightarrow> ''module'' | _ \<Rightarrow> ''function'')"

definition sample_world :: "int world" where
  "sample_world = \<lparr> py_import = (\<lambda>m. Some (Module m)), py_exec = sample_exec,
     py_repr = sample_repr, py_type_name = sample_type_name, py_getsizeof = (\<lambda>v. 28) \<rparr>"

definition alice :: "user option" where
  "alice = Some \<lparr>user_id = ''alice'', user_valves = None\<rparr>"

definition bob :: "user option" where
  "bob = Some \<lparr>user_id = ''bob'', user_valves = Some (UserValves False)\<rparr>"





text \<open>The tool with the smallest output bound the valves allow.\<close>

definition small_output :: "int Tools" where
  "small_output = init\<lparr>valves := default_valves\<lparr>max_output_length := 100\<rparr>\<rparr>"

section \<open>Dictionaries, persistence and the namespace\<close>

lemma map_of_dict_update:
  "map_of (dict_update ns st) k = (case map_of (rev st) k of Some v \<Rightarrow> Some v | None \<Rightarrow> map_of ns k)"
  by (induction ns st rule: dict_update.induct) (auto simp: update_conv' map_add_def split: option.splits)

lemma map_of_rev_distinct: "distinct (map fst st) \<Longrightarrow> map_of (rev st) = map_of st"
  by (rule map_of_inject_set[THEN iffD2]) (simp_all add: rev_map[symmetric])

lemma map_of_build_namespace:
  "map_of (build_namespace w v st) k =
     (if k = ''as_table'' then Some AsTable
      else if k = ''quick_stats'' then Some QuickStats
      else case map_of (rev st) k of Some x \<Rightarrow> Some x
           | None \<Rightarrow> map_of (load_modules w (comma_entries (auto_imports v)) [(''__builtins__'', Builtins)]) k)"
  by (simp add: build_namespace_def update_conv' map_of_dict_update)

lemma map_of_persist:
  "map_of (fst (persist ns names st saved)) k =
     (if k \<in> set names \<and> map_of ns k \<noteq> None \<and> \<not> prefix ''_'' k then map_of ns k else map_of st k)"
  by (induction ns names st saved rule: persist.induct) (auto simp: update_conv' split: option.splits)

lemma snd_persist:
  "snd (persist ns names st saved) =
     saved @ filter (\<lambda>n. map_of ns n \<noteq> None \<and> \<not> prefix ''_'' n) names"
  by (induction ns names st saved rule: persist.induct) (auto split: option.splits)

section \<open>The three outcomes of \<open>execute_code\<close>\<close>

lemma valves_user_state: "valves (fst (user_state i self)) = valves self"
  by (simp add: user_state_def split: option.splits)

lemma exec_counts_user_state: "exec_counts (fst (user_state i self)) = exec_counts self"
  by (simp add: user_state_def split: option.splits)

lemma snd_user_state: "snd (user_state i self) = namespace_of self i"
  by (simp add: user_state_def namespace_of_def split: option.splits)

lemma state_user_state: "state (fst (user_state i self)) = (state self)(i \<mapsto> namespace_of self i)"
  by (auto simp: user_state_def namespace_of_def split: option.splits)

lemma namespace_of_user_state: "namespace_of (fst (user_state i self)) j = namespace_of self j"
  by (simp add: namespace_of_def state_user_state)

lemma counter_of_user_state: "counter_of (fst (user_state i self)) j = counter_of self j"
  by (simp add: counter_of_def exec_counts_user_state)

lemma comma_entries_Nil: "comma_entries [] = []"
  by (simp add: comma_entries_def strip_def)

lemma execute_code_blocked:
  assumes "validate (valves self) code \<noteq> []"
  shows "execute_code w code save_vars u emitter self =
     (fst (user_state (uid u) self),
      Inr (''**Sandbox violation:**\<newline>'' @
           join ''\<newline>'' (map (\<lambda>i. ''- '' @ i) (validate (valves self) code))),
      emit emitter (Status ''Validating...'' False) @ emit emitter (Status ''Blocked'' True))"
proof -
  obtain self1 st where us: "user_state (uid u) self = (self1, st)"
    by (cases "user_state (uid u) self")
  have v: "valves self1 = valves self"
    using valves_user_state[of "uid u" self] us by simp
  have e: "((@) ''- '') = (\<lambda>i. CHR ''-'' # CHR '' '' # i)"
    by (rule ext) simp
  show ?thesis
    using assms by (simp add: execute_code_def us v Let_def e)
qed


lemma execute_code_ran:
  assumes "validate (valves self) code = []" and "outcome (observe w self code u) \<noteq> Escaped"
  shows "execute_code w code save_vars u emitter self =
     (let obs = observe w self code u;
          p = persist (ns_after obs) (comma_entries save_vars) (namespace_of self (uid u)) [];
          cnt = counter_of self (uid u) + 1;
          error = error_of (valves self) (outcome obs)
      in (self\<lparr>state := (state self)(uid u \<mapsto> fst p),
               exec_counts := (exec_counts self)(uid u \<mapsto> cnt)\<rparr>,
          Inr (join ''\<newline>\<newline>''
                 (build_response (valves self) u (stdout obs) error (snd p) cnt (elapsed_ms obs))),
          emit emitter (Status ''Validating...'' False) @ emit emitter (Status ''Running...'' False) @
          emit emitter (Status (if error \<noteq> None \<and> error \<noteq> Some [] then ''Error''
                                else ''Done ('' @ str_ms (elapsed_ms obs) @ ''s)'') True)))"
proof -
  obtain self1 st where us: "user_state (uid u) self = (self1, st)"
    by (cases "user_state (uid u) self")
  have v: "valves self1 = valves self"
    using valves_user_state[of "uid u" self] us by simp
  have st: "st = namespace_of self (uid u)"
    using snd_user_state[of "uid u" self] us by simp
  have s1: "state self1 = (state self)(uid u \<mapsto> namespace_of self (uid u))"
    using state_user_state[of "uid u" self] us by simp
  have c1: "exec_counts self1 = exec_counts self"
    using exec_counts_user_state[of "uid u" self] us by simp
  have eq: "self1\<lparr>state := (state self1)(uid u \<mapsto> x), exec_counts := y\<rparr> =
            self\<lparr>state := (state self)(uid u \<mapsto> x), exec_counts := y\<rparr>" for x y
    using v s1 c1 by (cases self, cases self1) simp
  show ?thesis
    using assms
    apply (simp add: execute_code_def us v st[symmetric] observe_def Let_def comma_entries_Nil
        counter_of_def c1 split: prod.splits)
    apply (cases "outcome (py_exec w code (build_namespace w (valves self) st) (max_execution_time (valves self)))")
       apply (auto simp: comma_entries_Nil eq c1 v Let_def counter_of_def split: prod.splits)
    done
qed

section \<open>Evaluations at the sample inputs\<close>

lemma validate_import_os:
  "validate default_valves ''import os; x = open(1)'' = [''Blocked: `import os`'', ''Blocked: `open(`'']"
  by code_simp

lemma validate_samples:
  "validate default_valves ''x = 1; y = 2'' = []"
  "validate default_valves ''x = 1\<newline>while True: pass'' = []"
  "validate default_valves ''secret = 42'' = []"
  "validate default_valves ''print(1)'' = []"
  "validate default_valves ''pass'' = []"
  by code_simp+

lemma valves_init: "valves init = default_valves"
  by (simp add: init_def)

lemma namespace_of_init: "namespace_of init i = []"
  by (simp add: init_def namespace_of_def)

lemma counter_of_init: "counter_of init i = 0"
  by (simp add: init_def counter_of_def)

lemma validate_nonempty_iff:
  "validate v code \<noteq> [] \<longleftrightarrow> sandbox_mode v \<and> (\<exists>p\<in>set (blocked v). sublist p code)"
  by (auto simp: validate_def filter_empty_conv)

lemma observe_sample:
  "observe sample_world self code u = sample_exec code (build_namespace sample_world (valves self) (namespace_of self (uid u))) (max_execution_time (valves self))"
  by (simp add: observe_def sample_world_def)

section \<open>C1: the execution counter\<close>

text \<open>
  C1 (amended). A request that passes validation and ends in success, a TimeoutFailure
  or a RuntimeFailure (an \<open>Exception\<close>, which the engine catches) increments the
  caller's counter by exactly one; a request that fails validation leaves it as it was.
  The counters of the other callers do not change.
\<close>

theorem counter_incremented_once_per_run:
  assumes "validate (valves self) code \<noteq> [] \<or> outcome (observe w self code u) \<noteq> Escaped"
  shows "counter_of (fst (execute_code w code save_vars u emitter self)) (uid u) =
           counter_of self (uid u) + (if validate (valves self) code = [] then 1 else 0)
       \<and> (j \<noteq> uid u \<longrightarrow> counter_of (fst (execute_code w code save_vars u emitter self)) j = counter_of self j)"
proof (cases "validate (valves self) code = []")
  case True
  with assms have "outcome (observe w self code u) \<noteq> Escaped" by simp
  from execute_code_ran[OF True this] True show ?thesis
    by (simp add: Let_def counter_of_def)
next
  case False
  then show ?thesis
    by (simp add: execute_code_blocked counter_of_user_state)
qed

theorem counter_incremented_once_per_run_witness:
  "validate (valves (init :: int Tools)) ''x = 1\<newline>while True: pass'' = [] \<and>
   outcome (observe sample_world init ''x = 1\<newline>while True: pass'' alice) = TimedOut \<and>
   counter_of (fst (execute_code sample_world ''x = 1\<newline>while True: pass'' ''x'' alice False init)) ''alice'' = 1 \<and>
   counter_of (fst (execute_code sample_world ''x = 1\<newline>while True: pass'' ''x'' alice False init)) ''bob'' = 0"
proof -
  have o: "outcome (observe sample_world init ''x = 1\<newline>while True: pass'' alice) = TimedOut"
    by (simp add: observe_sample sample_exec_def)
  then have h: "validate (valves (init :: int Tools)) ''x = 1\<newline>while True: pass'' \<noteq> [] \<or>
      outcome (observe sample_world init ''x = 1\<newline>while True: pass'' alice) \<noteq> Escaped"
    by simp
  have u: "uid alice = ''alice''" by (simp add: uid_def alice_def)
  show ?thesis
    using counter_incremented_once_per_run[OF h, of "''x''" False "''bob''"] o
    by (simp add: u valves_init validate_samples counter_of_init)
qed

text \<open>
  C1, as stated, fails on a ValidationFailure: the snippet \<open>import os; x = open(1)\<close>
  is blocked under the default valves and the counter of the caller is not incremented.
\<close>
theorem counter_unchanged_when_blocked_counterexample:
  "validate (valves (init :: int Tools)) ''import os; x = open(1)'' \<noteq> [] \<and>
   counter_of (fst (execute_code sample_world ''import os; x = open(1)'' [] None False init)) (uid None)
     \<noteq> counter_of (init :: int Tools) (uid None) + 1"
  by (simp add: execute_code_blocked valves_init validate_import_os counter_of_user_state counter_of_init)

section \<open>C2: timeouts\<close>

lemma mem_join_sublist: "p \<in> set ps \<Longrightarrow> sublist p (join sep ps)"
proof (induction sep ps rule: join.induct)
  case (1 sep)
  then show ?case by simp
next
  case (2 sep q)
  then show ?case by simp
next
  case (3 sep q r ps)
  show ?case
  proof (cases "p = q")
    case True
    then show ?thesis by (simp add: sublist_append_rightI prefix_imp_sublist)
  next
    case False
    with 3 have "sublist p (join sep (r # ps))" by simp
    then have "sublist p ((q @ sep) @ join sep (r # ps))" by (simp add: sublist_append)
    then show ?thesis by simp
  qed
qed

lemma error_block_in_response:
  "e \<noteq> [] \<Longrightarrow> (''**Error:**\<newline>```\<newline>'' @ e @ ''\<newline>```'') \<in> set (build_response v u out (Some e) saved cnt ms)"
  by (simp add: build_response_def Let_def)

lemma str_int_30: "str_int 30 = ''30''"
  by code_simp

lemma max_time_default: "max_execution_time default_valves = 30"
  by (simp add: default_valves_def)

lemma uid_alice: "uid alice = ''alice''"
  by (simp add: uid_def alice_def)

lemma observe_busy_wait:
  "observe sample_world init ''x = 1\<newline>while True: pass'' alice =
     \<lparr>outcome = TimedOut, stdout = [],
      ns_after = AList.update ''x'' (Obj 1) (build_namespace sample_world default_valves []),
      elapsed_ms = 30000\<rparr>"
  by (simp add: observe_sample sample_exec_def valves_init namespace_of_init max_time_default)

lemma comma_entries_x: "comma_entries ''x'' = [''x'']"
  by code_simp

text \<open>
  C2 (amended). When the wait for the worker times out, the response carries the error
  block "Timed out after Ns" with the configured bound N, and the persistent namespace is
  updated from the namespace as the snippet left it when the timeout was observed, under
  the rule of every other outcome: a name is stored if and only if it is in the
  persistence list, is bound in that namespace and does not begin with an underscore.
\<close>

theorem timeout_is_reported_and_requested_names_persist:
  assumes "validate (valves self) code = []"
    and "outcome (observe w self code u) = TimedOut"
  shows "(\<exists>r. fst (snd (execute_code w code save_vars u emitter self)) = Inr r \<and>
              sublist (''**Error:**\<newline>```\<newline>Timed out after '' @
                       str_int (max_execution_time (valves self)) @ ''s\<newline>```'') r) \<and>
         map_of (namespace_of (fst (execute_code w code save_vars u emitter self)) (uid u)) name =
           (if name \<in> set (comma_entries save_vars) \<and>
               map_of (ns_after (observe w self code u)) name \<noteq> None \<and> \<not> prefix ''_'' name
            then map_of (ns_after (observe w self code u)) name
            else map_of (namespace_of self (uid u)) name)"
proof -
  have ne: "outcome (observe w self code u) \<noteq> Escaped"
    using assms(2) by simp
  have err: "error_of (valves self) (outcome (observe w self code u)) =
      Some (''Timed out after '' @ str_int (max_execution_time (valves self)) @ ''s'')"
    using assms(2) by (simp add: error_of_def)
  have blk: "(''**Error:**\<newline>```\<newline>'' @ (''Timed out after '' @ str_int (max_execution_time (valves self)) @ ''s'') @ ''\<newline>```'')
      \<in> set (build_response (valves self) u out
                (Some (''Timed out after '' @ str_int (max_execution_time (valves self)) @ ''s'')) saved cnt ms)"
    for out saved cnt ms
    by (rule error_block_in_response) simp
  have a: "\<exists>r. fst (snd (execute_code w code save_vars u emitter self)) = Inr r \<and>
              sublist (''**Error:**\<newline>```\<newline>Timed out after '' @
                       str_int (max_execution_time (valves self)) @ ''s\<newline>```'') r"
    unfolding execute_code_ran[OF assms(1) ne]
    using mem_join_sublist[OF blk] by (simp add: Let_def err)
  have b: "map_of (namespace_of (fst (execute_code w code save_vars u emitter self)) (uid u)) name =
           (if name \<in> set (comma_entries save_vars) \<and>
               map_of (ns_after (observe w self code u)) name \<noteq> None \<and> \<not> prefix ''_'' name
            then map_of (ns_after (observe w self code u)) name
            else map_of (namespace_of self (uid u)) name)"
    unfolding execute_code_ran[OF assms(1) ne]
    by (simp add: Let_def namespace_of_def[of "_\<lparr>state := _, exec_counts := _\<rparr>"] map_of_persist)
  from a b show ?thesis by blast
qed

theorem timeout_is_reported_and_requested_names_persist_witness:
  "validate (valves (init :: int Tools)) ''x = 1\<newline>while True: pass'' = [] \<and>
   outcome (observe sample_world init ''x = 1\<newline>while True: pass'' alice) = TimedOut \<and>
   (\<exists>r. fst (snd (execute_code sample_world ''x = 1\<newline>while True: pass'' ''x'' alice False init)) = Inr r \<and>
        sublist ''**Error:**\<newline>```\<newline>Timed out after 30s\<newline>```'' r) \<and>
   map_of (namespace_of (fst (execute_code sample_world ''x = 1\<newline>while True: pass'' ''x'' alice False init)) ''alice'') ''x''
     = Some (Obj 1)"
proof -
  have v: "validate (valves (init :: int Tools)) ''x = 1\<newline>while True: pass'' = []"
    by (simp add: valves_init validate_samples)
  have o: "outcome (observe sample_world init ''x = 1\<newline>while True: pass'' alice) = TimedOut"
    by (simp add: observe_busy_wait)
  note t = timeout_is_reported_and_requested_names_persist[OF v o, of "''x''" False "''x''"]
  have r: "\<exists>r. fst (snd (execute_code sample_world ''x = 1\<newline>while True: pass'' ''x'' alice False init)) = Inr r \<and>
        sublist ''**Error:**\<newline>```\<newline>Timed out after 30s\<newline>```'' r"
    using t by (simp add: valves_init max_time_default str_int_30)
  have p: "map_of (namespace_of (fst (execute_code sample_world ''x = 1\<newline>while True: pass'' ''x'' alice False init)) ''alice'') ''x''
     = Some (Obj 1)"
    using t by (simp add: uid_alice comma_entries_x observe_busy_wait update_conv')
  from v o r p show ?thesis by blast
qed

text \<open>
  C2, as stated, fails: the snippet that binds \<open>x\<close> and then waits forever times out,
  and with \<open>x\<close> in the persistence list the binding made before the timeout is stored.
\<close>

theorem timeout_persists_partial_state_counterexample:
  "outcome (observe sample_world init ''x = 1\<newline>while True: pass'' alice) = TimedOut \<and>
   map_of (namespace_of (init :: int Tools) ''alice'') ''x'' = None \<and>
   map_of (namespace_of (fst (execute_code sample_world ''x = 1\<newline>while True: pass'' ''x'' alice False init)) ''alice'') ''x''
     = Some (Obj 1)"
proof -
  have v: "validate (valves (init :: int Tools)) ''x = 1\<newline>while True: pass'' = []"
    by (simp add: valves_init validate_samples)
  have o: "outcome (observe sample_world init ''x = 1\<newline>while True: pass'' alice) = TimedOut"
    by (simp add: observe_busy_wait)
  then have ne: "outcome (observe sample_world init ''x = 1\<newline>while True: pass'' alice) \<noteq> Escaped"
    by simp
  have p: "map_of (namespace_of (fst (execute_code sample_world ''x = 1\<newline>while True: pass'' ''x'' alice False init)) ''alice'') ''x''
     = Some (Obj 1)"
    unfolding execute_code_ran[OF v ne]
    by (simp add: Let_def namespace_of_def[of "_\<lparr>state := _, exec_counts := _\<rparr>"] map_of_persist
        uid_alice comma_entries_x observe_busy_wait update_conv')
  from o p show ?thesis by (simp add: namespace_of_init)
qed

section \<open>C3: a denylisted snippet is blocked\<close>

text \<open>
  C3. With sandbox mode on and at least one configured denylist entry occurring in the
  snippet: the call returns the sandbox-violation report with one line for every
  configured entry that occurs in the snippet, in the configured order, and emits only
  the events "Validating..." and "Blocked"; the whole result is the same under any
  runtime (the snippet is not executed); every counter and every persistent namespace
  is as before.
\<close>
theorem denylisted_snippet_is_blocked:
  assumes "sandbox_mode (valves self)"
    and "\<exists>p\<in>set (blocked (valves self)). sublist p code"
  shows "snd (execute_code w code save_vars u emitter self) =
           (Inr (''**Sandbox violation:**\<newline>'' @
                 join ''\<newline>'' (map (\<lambda>p. ''- Blocked: `'' @ p @ ''`'')
                                  (filter (\<lambda>p. sublist p code) (blocked (valves self))))),
            emit emitter (Status ''Validating...'' False) @ emit emitter (Status ''Blocked'' True))
       \<and> execute_code w' code save_vars u emitter self = execute_code w code save_vars u emitter self
       \<and> counter_of (fst (execute_code w code save_vars u emitter self)) j = counter_of self j
       \<and> namespace_of (fst (execute_code w code save_vars u emitter self)) j = namespace_of self j"
proof -
  have ne: "validate (valves self) code \<noteq> []"
    using assms by (simp add: validate_nonempty_iff)
  have v: "map (\<lambda>i. ''- '' @ i) (validate (valves self) code) =
           map (\<lambda>p. ''- Blocked: `'' @ p @ ''`'') (filter (\<lambda>p. sublist p code) (blocked (valves self)))"
    using assms(1) by (simp add: validate_def comp_def)
  show ?thesis
    unfolding execute_code_blocked[OF ne] v
    by (simp add: counter_of_user_state namespace_of_user_state)
qed

theorem denylisted_snippet_is_blocked_witness:
  "sandbox_mode (valves (init :: int Tools)) \<and>
   (\<exists>p\<in>set (blocked (valves (init :: int Tools))). sublist p ''import os; x = open(1)'') \<and>
   snd (execute_code sample_world ''import os; x = open(1)'' ''x'' alice True init) =
     (Inr ''**Sandbox violation:**\<newline>- Blocked: `import os`\<newline>- Blocked: `open(`'',
      [Status ''Validating...'' False, Status ''Blocked'' True]) \<and>
   counter_of (fst (execute_code sample_world ''import os; x = open(1)'' ''x'' alice True init)) ''alice'' = 0"
proof -
  have s: "sandbox_mode (valves (init :: int Tools))"
    by (simp add: init_def default_valves_def)
  have f: "filter (\<lambda>p. sublist p ''import os; x = open(1)'') (blocked default_valves) = [''import os'', ''open('']"
    by code_simp
  have m: "\<exists>p\<in>set (blocked (valves (init :: int Tools))). sublist p ''import os; x = open(1)''"
  proof -
    have "filter (\<lambda>p. sublist p ''import os; x = open(1)'') (blocked default_valves) \<noteq> []"
      unfolding f by simp
    then show ?thesis
      unfolding valves_init filter_empty_conv by blast
  qed
  note t = denylisted_snippet_is_blocked[OF s m, of sample_world "''x''" alice True sample_world "''alice''"]
  have r: "snd (execute_code sample_world ''import os; x = open(1)'' ''x'' alice True init) =
     (Inr ''**Sandbox violation:**\<newline>- Blocked: `import os`\<newline>- Blocked: `open(`'',
      [Status ''Validating...'' False, Status ''Blocked'' True])"
    using t unfolding valves_init f by (simp add: emit_def)
  have c: "counter_of (fst (execute_code sample_world ''import os; x = open(1)'' ''x'' alice True init)) ''alice'' = 0"
    using t by (simp add: counter_of_init)
  show ?thesis
    using s m r c by blast
qed

section \<open>C4: persistence is selective\<close>

text \<open>
  C4. After an execution (validation passed; success, exception or timeout), the
  caller's persistent namespace binds a name to its value in the post-execution
  namespace if and only if the name is in the persistence list, is bound in the
  post-execution namespace and does not begin with an underscore; every other name is
  bound, or unbound, as before.
\<close>
theorem persistence_is_selective:
  assumes "validate (valves self) code = []" and "outcome (observe w self code u) \<noteq> Escaped"
  shows "map_of (namespace_of (fst (execute_code w code save_vars u emitter self)) (uid u)) name =
     (if name \<in> set (comma_entries save_vars) \<and>
         map_of (ns_after (observe w self code u)) name \<noteq> None \<and> \<not> prefix ''_'' name
      then map_of (ns_after (observe w self code u)) name
      else map_of (namespace_of self (uid u)) name)"
  unfolding execute_code_ran[OF assms]
  by (simp add: Let_def namespace_of_def[of "_\<lparr>state := _, exec_counts := _\<rparr>"] map_of_persist)

theorem persistence_is_selective_witness:
  "validate (valves (init :: int Tools)) ''x = 1; y = 2'' = [] \<and>
   outcome (observe sample_world init ''x = 1; y = 2'' alice) \<noteq> Escaped \<and>
   map_of (ns_after (observe sample_world init ''x = 1; y = 2'' alice)) ''y'' = Some (Obj 2) \<and>
   map_of (namespace_of (fst (execute_code sample_world ''x = 1; y = 2'' ''x'' alice False init)) ''alice'') ''x'' = Some (Obj 1) \<and>
   map_of (namespace_of (fst (execute_code sample_world ''x = 1; y = 2'' ''x'' alice False init)) ''alice'') ''y'' = None"
proof -
  have v: "validate (valves (init :: int Tools)) ''x = 1; y = 2'' = []"
    by (simp add: valves_init validate_samples)
  have o: "observe sample_world init ''x = 1; y = 2'' alice =
     \<lparr>outcome = Finished, stdout = [],
      ns_after = AList.update ''y'' (Obj 2) (AList.update ''x'' (Obj 1)
        (build_namespace sample_world default_valves [])), elapsed_ms = 0\<rparr>"
    by (simp add: observe_sample sample_exec_def valves_init namespace_of_init)
  have e: "outcome (observe sample_world init ''x = 1; y = 2'' alice) \<noteq> Escaped"
    by (simp add: o)
  have c: "comma_entries ''x'' = [''x'']" by code_simp
  have u: "uid alice = ''alice''" by (simp add: uid_def alice_def)
  show ?thesis
    using persistence_is_selective[OF v e, of "''x''" False "''x''"]
      persistence_is_selective[OF v e, of "''x''" False "''y''"] v
    by (simp add: o c u update_conv' namespace_of_init)
qed

section \<open>C5: isolation between callers\<close>























section \<open>C6: the response of a silent execution\<close>

lemma build_response_silent:
  "build_response v u [] None [] cnt ms =
     (if show_time u then [''*Execution #'' @ str_int cnt @ '' '' @ em_dash @ '' '' @ str_ms ms @ ''s*'']
      else [''*Executed successfully (no output).*''])"
  by (simp add: build_response_def Let_def)

lemma observe_pass:
  "observe sample_world init ''pass'' u =
     \<lparr>outcome = Finished, stdout = [],
      ns_after = build_namespace sample_world default_valves [], elapsed_ms = 0\<rparr>"
  by (simp add: observe_sample sample_exec_def valves_init namespace_of_init)

lemma str_int_1: "str_int 1 = ''1''"
  by code_simp

lemma str_ms_0: "str_ms 0 = ''0.000''"
  by code_simp

lemma show_time_samples: "show_time alice" "\<not> show_time bob" "show_time None"
  by (simp_all add: show_time_def alice_def bob_def)

text \<open>
  C6 (amended). For an execution with no captured output, no error and no saved
  variable, the response is the timing line alone when the caller's display preference
  shows timing (the default), and the literal "Executed successfully (no output)." message
  exactly when the preference switches the timing line off.
\<close>

theorem silent_success_response:
  assumes "validate (valves self) code = []"
    and "outcome (observe w self code u) = Finished"
    and "stdout (observe w self code u) = []"
    and "snd (persist (ns_after (observe w self code u)) (comma_entries save_vars)
               (namespace_of self (uid u)) []) = []"
  shows "fst (snd (execute_code w code save_vars u emitter self)) =
     (if show_time u
      then Inr (''*Execution #'' @ str_int (counter_of self (uid u) + 1) @ '' '' @ em_dash @ '' '' @
                str_ms (elapsed_ms (observe w self code u)) @ ''s*'')
      else Inr ''*Executed successfully (no output).*'')"
proof -
  have ne: "outcome (observe w self code u) \<noteq> Escaped"
    using assms(2) by simp
  have err: "error_of (valves self) (outcome (observe w self code u)) = None"
    using assms(2) by (simp add: error_of_def)
  show ?thesis
    unfolding execute_code_ran[OF assms(1) ne]
    by (simp add: Let_def err assms(3,4) build_response_silent)
qed

theorem silent_success_response_witness:
  "validate (valves (init :: int Tools)) ''pass'' = [] \<and>
   outcome (observe sample_world init ''pass'' bob) = Finished \<and>
   stdout (observe sample_world init ''pass'' bob) = [] \<and>
   fst (snd (execute_code sample_world ''pass'' [] bob False init)) =
     Inr ''*Executed successfully (no output).*'' \<and>
   fst (snd (execute_code sample_world ''pass'' [] alice False init)) =
     Inr (''*Execution #1 '' @ em_dash @ '' 0.000s*'')"
proof -
  have v: "validate (valves (init :: int Tools)) ''pass'' = []"
    by (simp add: valves_init validate_samples)
  have o: "outcome (observe sample_world init ''pass'' u) = Finished" for u
    by (simp add: observe_pass)
  have s: "stdout (observe sample_world init ''pass'' u) = []" for u
    by (simp add: observe_pass)
  have p: "snd (persist (ns_after (observe sample_world init ''pass'' u)) (comma_entries [])
               (namespace_of init (uid u)) []) = []" for u
    by (simp add: comma_entries_Nil)
  have b: "fst (snd (execute_code sample_world ''pass'' [] bob False init)) =
     Inr ''*Executed successfully (no output).*''"
    using silent_success_response[OF v o s p, of bob False] by (simp add: show_time_samples)
  have a: "fst (snd (execute_code sample_world ''pass'' [] alice False init)) =
     Inr (''*Execution #1 '' @ em_dash @ '' 0.000s*'')"
    using silent_success_response[OF v o s p, of alice False]
    by (simp add: show_time_samples counter_of_init str_int_1 observe_pass str_ms_0)
  from v o s a b show ?thesis by blast
qed

text \<open>
  C6, as stated, fails under the default display preference: a snippet with no output,
  no error and nothing to save is answered with the timing line, not with the literal.
\<close>

theorem silent_success_shows_timing_line_counterexample:
  "outcome (observe sample_world init ''pass'' None) = Finished \<and>
   stdout (observe sample_world init ''pass'' None) = [] \<and>
   snd (persist (ns_after (observe sample_world init ''pass'' None)) (comma_entries [])
          (namespace_of init (uid None)) []) = [] \<and>
   fst (snd (execute_code sample_world ''pass'' [] None False init)) =
     Inr (''*Execution #1 '' @ em_dash @ '' 0.000s*'') \<and>
   fst (snd (execute_code sample_world ''pass'' [] None False init)) \<noteq>
     Inr ''*Executed successfully (no output).*''"
proof -
  have v: "validate (valves (init :: int Tools)) ''pass'' = []"
    by (simp add: valves_init validate_samples)
  have ne: "outcome (observe sample_world init ''pass'' None) \<noteq> Escaped"
    by (simp add: observe_pass)
  have r: "fst (snd (execute_code sample_world ''pass'' [] None False init)) =
     Inr (''*Execution #1 '' @ em_dash @ '' 0.000s*'')"
    unfolding execute_code_ran[OF v ne]
    by (simp add: Let_def observe_pass error_of_def comma_entries_Nil build_response_silent
        show_time_samples counter_of_init str_int_1 str_ms_0)
  have d: "(''*Execution #1 '' @ em_dash @ '' 0.000s*'') \<noteq> ''*Executed successfully (no output).*''"
    by simp
  show ?thesis
    using r d by (simp add: observe_pass comma_entries_Nil)
qed

section \<open>C7: the output block\<close>

lemma output_text_ok:
  "0 \<le> m \<Longrightarrow> output_text m out =
     take (nat m) out @
     (if length out > nat m
      then ''\<newline>... truncated ('' @ str_commas (length out) @ '' total chars)''
      else [])"
  by (auto simp: output_text_def slice_to_def)

lemma output_parts_of_response:
  "filter (prefix ''**Output:**'') (build_response v u out None saved cnt ms) =
     (if out = [] then []
      else [''**Output:**\<newline>```\<newline>'' @ output_text (max_output_length v) out @ ''\<newline>```''])"
  by (simp add: build_response_def Let_def)

text \<open>
  C7. For a successful execution under valid valves, the response has exactly one output
  block when the captured output is not empty, and it is the first part: the captured
  text cut to the configured maximum length, followed by the "truncated (N total chars)"
  trailer if and only if the captured text is longer than the maximum. With no captured
  output there is no output block.
\<close>

theorem reported_output_is_truncated_stdout:
  assumes "valves_ok (valves self)"
    and "validate (valves self) code = []"
    and "outcome (observe w self code u) = Finished"
  shows "\<exists>parts. fst (snd (execute_code w code save_vars u emitter self)) = Inr (join ''\<newline>\<newline>'' parts) \<and>
     filter (prefix ''**Output:**'') parts =
       (if stdout (observe w self code u) = [] then []
        else [''**Output:**\<newline>```\<newline>'' @
              take (nat (max_output_length (valves self))) (stdout (observe w self code u)) @
              (if length (stdout (observe w self code u)) > nat (max_output_length (valves self))
               then ''\<newline>... truncated ('' @ str_commas (length (stdout (observe w self code u))) @
                    '' total chars)''
               else []) @
              ''\<newline>```'']) \<and>
     (stdout (observe w self code u) \<noteq> [] \<longrightarrow> filter (prefix ''**Output:**'') parts = take 1 parts)"
proof -
  let ?out = "stdout (observe w self code u)"
  let ?parts = "build_response (valves self) u ?out None
        (snd (persist (ns_after (observe w self code u)) (comma_entries save_vars) (namespace_of self (uid u)) []))
        (counter_of self (uid u) + 1) (elapsed_ms (observe w self code u))"
  have ne: "outcome (observe w self code u) \<noteq> Escaped"
    using assms(3) by simp
  have err: "error_of (valves self) (outcome (observe w self code u)) = None"
    using assms(3) by (simp add: error_of_def)
  have m: "0 \<le> max_output_length (valves self)"
    using assms(1) by (simp add: valves_ok_def)
  have r: "fst (snd (execute_code w code save_vars u emitter self)) = Inr (join ''\<newline>\<newline>'' ?parts)"
    unfolding execute_code_ran[OF assms(2) ne] by (simp add: Let_def err)
  have f: "filter (prefix ''**Output:**'') ?parts =
       (if ?out = [] then []
        else [''**Output:**\<newline>```\<newline>'' @
              take (nat (max_output_length (valves self))) ?out @
              (if length ?out > nat (max_output_length (valves self))
               then ''\<newline>... truncated ('' @ str_commas (length ?out) @ '' total chars)''
               else []) @
              ''\<newline>```''])"
    unfolding output_parts_of_response output_text_ok[OF m] by simp
  have t: "?out \<noteq> [] \<longrightarrow> filter (prefix ''**Output:**'') ?parts = take 1 ?parts"
    by (simp add: build_response_def Let_def)
  from r f t show ?thesis by blast
qed

lemma validate_print_150: "validate default_valves ''print(150 * chr(97), end=str())'' = []"
  by code_simp

lemma validate_small_output: "validate (valves small_output) code = validate default_valves code"
  by (simp add: small_output_def validate_def blocked_def default_valves_def)

lemma str_commas_150: "str_commas 150 = ''150''"
  by code_simp

lemma observe_print_150:
  "stdout (observe sample_world small_output ''print(150 * chr(97), end=str())'' u) = replicate 150 CHR ''a''"
  "outcome (observe sample_world small_output ''print(150 * chr(97), end=str())'' u) = Finished"
  by (simp_all add: observe_sample sample_exec_def)

theorem reported_output_is_truncated_stdout_witness:
  "valves_ok (valves small_output) \<and>
   validate (valves small_output) ''print(150 * chr(97), end=str())'' = [] \<and>
   outcome (observe sample_world small_output ''print(150 * chr(97), end=str())'' alice) = Finished \<and>
   (\<exists>parts. fst (snd (execute_code sample_world ''print(150 * chr(97), end=str())'' [] alice False small_output))
               = Inr (join ''\<newline>\<newline>'' parts) \<and>
            filter (prefix ''**Output:**'') parts =
              [''**Output:**\<newline>```\<newline>'' @ replicate 100 CHR ''a'' @
               ''\<newline>... truncated (150 total chars)\<newline>```''])"
proof -
  have k: "valves_ok (valves small_output)"
    by (simp add: small_output_def valves_ok_def default_valves_def)
  have v: "validate (valves small_output) ''print(150 * chr(97), end=str())'' = []"
    by (simp add: validate_small_output validate_print_150)
  have o: "outcome (observe sample_world small_output ''print(150 * chr(97), end=str())'' alice) = Finished"
    by (simp add: observe_print_150)
  have l: "max_output_length (valves small_output) = 100"
    by (simp add: small_output_def)
  have e: "\<exists>parts. fst (snd (execute_code sample_world ''print(150 * chr(97), end=str())'' [] alice False small_output))
               = Inr (join ''\<newline>\<newline>'' parts) \<and>
            filter (prefix ''**Output:**'') parts =
              [''**Output:**\<newline>```\<newline>'' @ replicate 100 CHR ''a'' @
               ''\<newline>... truncated (150 total chars)\<newline>```'']"
    using reported_output_is_truncated_stdout[OF k v o, of "[]" False]
    apply (simp add: observe_print_150 l str_commas_150)
    apply (erule exE)
    subgoal for parts
      apply (rule exI[of _ parts])
      apply simp
      done
    done
  from k v o e show ?thesis by blast
qed

section \<open>C8: the numeric summary\<close>

subsection \<open>Rounding to the nearest double\<close>


lemma pow2_0 [simp]: "pow2 0 = 1"
  by (simp add: pow2_def)




















subsection \<open>Sorting, sums and the median of a list of integers\<close>















subsection \<open>The summary\<close>












section \<open>C9: the tabular formatter\<close>

lemma fold_max_Max: "fold max xs (a :: nat) = Max (insert a (set xs))"
proof (induction xs arbitrary: a)
  case Nil
  then show ?case by simp
next
  case (Cons x xs)
  have "Max (insert (max x a) (set xs)) = Max (insert a (insert x (set xs)))"
    by (cases "set xs = {}") (simp_all add: max.commute max.left_commute)
  with Cons show ?case by simp
qed

lemma col_width_Max:
  "col_width str_of data h = Max (insert (length h) ((\<lambda>row. length (cell str_of row h)) ` set data))"
  by (simp add: col_width_def fold_max_Max)

lemma col_width_ge_header: "length h \<le> col_width str_of data h"
  by (simp add: col_width_Max)

lemma col_width_ge_cell: "row \<in> set data \<Longrightarrow> length (cell str_of row h) \<le> col_width str_of data h"
  by (simp add: col_width_Max)

lemma length_ljust: "length (ljust w s) = max w (length s)"
  by (simp add: ljust_def)

lemma map_zip_widths: "map (\<lambda>(h, w). f w h) (zip hs (map g hs)) = map (\<lambda>h. f (g h) h) hs"
  by (induction hs) simp_all

lemma table_lines_untitled:
  "table_lines str_of data [] =
     table_row (map (\<lambda>h. ljust (col_width str_of data h) h) (map fst (hd data))) #
     table_row (map (\<lambda>h. replicate (col_width str_of data h) CHR ''-'') (map fst (hd data))) #
     map (\<lambda>row. table_row (map (\<lambda>h. ljust (col_width str_of data h) (cell str_of row h))
                             (map fst (hd data)))) data"
  by (simp add: table_lines_def Let_def map_zip_widths comp_def)

text \<open>
  C9. \<open>as_table\<close> returns the marker "(empty)" on the empty list. On \<open>[{"a": 1, "b": 2}]\<close>
  with no title it returns exactly three lines. On every non-empty list with no title
  it returns the header row, the separator row and one row per record, joined by
  newlines; the width of a column is the maximum of the length of its header and of the
  lengths of its values, and the header and every value of the column are padded to
  exactly that width.
\<close>

theorem as_table_layout:
  "fst (as_table str_of [] title) = ''(empty)'' \<and>
   split_on CHR ''\<newline>'' (fst (as_table str_int [[(''a'', 1), (''b'', 2)]] [])) =
     [''| a | b |'', ''| - | - |'', ''| 1 | 2 |''] \<and>
   (data \<noteq> [] \<longrightarrow>
      fst (as_table str_of data []) = join ''\<newline>'' (table_lines str_of data []) \<and>
      table_lines str_of data [] =
        table_row (map (\<lambda>h. ljust (col_width str_of data h) h) (map fst (hd data))) #
        table_row (map (\<lambda>h. replicate (col_width str_of data h) CHR ''-'') (map fst (hd data))) #
        map (\<lambda>row. table_row (map (\<lambda>h. ljust (col_width str_of data h) (cell str_of row h))
                                (map fst (hd data)))) data \<and>
      length (table_lines str_of data []) = 2 + length data \<and>
      col_width str_of data h =
        Max (insert (length h) ((\<lambda>row. length (cell str_of row h)) ` set data)) \<and>
      length (ljust (col_width str_of data h) h) = col_width str_of data h \<and>
      (\<forall>row\<in>set data. length (ljust (col_width str_of data h) (cell str_of row h)) = col_width str_of data h))"
proof -
  have e: "fst (as_table str_of [] title) = ''(empty)''"
    by (simp add: as_table_def)
  have s1: "str_int 1 = ''1''" and s2: "str_int 2 = ''2''"
    by code_simp+
  have x: "split_on CHR ''\<newline>'' (fst (as_table str_int [[(''a'', 1), (''b'', 2)]] [])) =
     [''| a | b |'', ''| - | - |'', ''| 1 | 2 |'']"
    by (simp add: as_table_def table_lines_untitled table_row_def col_width_def cell_def ljust_def s1 s2)
  have g: "data \<noteq> [] \<longrightarrow> fst (as_table str_of data []) = join ''\<newline>'' (table_lines str_of data [])"
    by (simp add: as_table_def Let_def)
  have l: "length (table_lines str_of data []) = 2 + length data"
    by (simp add: table_lines_untitled)
  have h: "length (ljust (col_width str_of data h) h) = col_width str_of data h"
    using col_width_ge_header[of h str_of data] by (simp add: length_ljust)
  have c: "\<forall>row\<in>set data. length (ljust (col_width str_of data h) (cell str_of row h)) = col_width str_of data h"
    using col_width_ge_cell[of _ data str_of h] by (simp add: length_ljust)
  from e x g l h c table_lines_untitled[of str_of data] col_width_Max[of str_of data h]
  show ?thesis by blast
qed

theorem as_table_layout_witness:
  "[[(''a'', 1 :: int), (''b'', 2)]] \<noteq> [] \<and>
   fst (as_table str_int [[(''a'', 1), (''b'', 2)]] []) =
     ''| a | b |\<newline>| - | - |\<newline>| 1 | 2 |'' \<and>
   col_width str_int [[(''a'', 1), (''b'', 2)]] ''a'' = 1 \<and>
   col_width str_int [[(''a'', 1), (''b'', 2)]] ''b'' = 1 \<and>
   (\<exists>row. row \<in> set [[(''a'', 1 :: int), (''b'', 2)]] \<and>
          length (ljust (col_width str_int [[(''a'', 1), (''b'', 2)]] ''a'') (cell str_int row ''a'')) = 1)"
proof -
  have s1: "str_int 1 = ''1''" and s2: "str_int 2 = ''2''"
    by code_simp+
  note ta = as_table_layout[where str_of = str_int and data = "[[(''a'', 1), (''b'', 2)]]"
      and h = "''a''" and title = "[]"]
  note tb = as_table_layout[where str_of = str_int and data = "[[(''a'', 1), (''b'', 2)]]"
      and h = "''b''" and title = "[]"]
  have wa: "col_width str_int [[(''a'', 1), (''b'', 2)]] ''a'' = 1"
    using ta by (simp add: cell_def s1)
  have wb: "col_width str_int [[(''a'', 1), (''b'', 2)]] ''b'' = 1"
    using tb by (simp add: cell_def s2)
  have r: "fst (as_table str_int [[(''a'', 1), (''b'', 2)]] []) =
     ''| a | b |\<newline>| - | - |\<newline>| 1 | 2 |''"
    using ta by (simp add: wa wb table_row_def cell_def ljust_def s1 s2)
  have c: "\<exists>row. row \<in> set [[(''a'', 1 :: int), (''b'', 2)]] \<and>
          length (ljust (col_width str_int [[(''a'', 1), (''b'', 2)]] ''a'') (cell str_int row ''a'')) = 1"
    using ta by (simp add: wa)
  from r wa wb c show ?thesis by simp
qed

section \<open>C10: the injected helpers are bound last\<close>

text \<open>
  C10. In the namespace the builder returns, \<open>quick_stats\<close> and \<open>as_table\<close> are bound to
  the two helpers whatever the persisted variables are; every other persisted name keeps
  its persisted value there, so it shadows an auto-loaded module of the same name.
\<close>

theorem helpers_are_never_shadowed:
  "map_of (build_namespace w v persisted) ''quick_stats'' = Some QuickStats \<and>
   map_of (build_namespace w v persisted) ''as_table'' = Some AsTable \<and>
   (distinct (map fst persisted) \<and> map_of persisted name = Some x \<and>
      name \<noteq> ''quick_stats'' \<and> name \<noteq> ''as_table''
    \<longrightarrow> map_of (build_namespace w v persisted) name = Some x)"
  by (simp add: map_of_build_namespace map_of_rev_distinct)

lemma auto_imports_default:
  "comma_entries (auto_imports default_valves) = [''math'', ''random'', ''json'', ''datetime'',
     ''collections'', ''itertools'', ''re'', ''statistics'', ''textwrap'', ''functools'',
     ''hashlib'', ''base64'']"
  by code_simp

theorem helpers_are_never_shadowed_witness:
  "distinct (map fst [(''math'', Obj (7::int)), (''quick_stats'', Obj 8)]) \<and>
   map_of (build_namespace sample_world default_valves []) ''math'' = Some (Module ''math'') \<and>
   map_of (build_namespace sample_world default_valves [(''math'', Obj 7), (''quick_stats'', Obj 8)]) ''math''
     = Some (Obj 7) \<and>
   map_of (build_namespace sample_world default_valves [(''math'', Obj 7), (''quick_stats'', Obj 8)]) ''quick_stats''
     = Some QuickStats \<and>
   map_of (build_namespace sample_world default_valves [(''math'', Obj 7), (''quick_stats'', Obj 8)]) ''as_table''
     = Some AsTable"
proof -
  have m: "map_of (build_namespace sample_world default_valves []) ''math'' = Some (Module ''math'')"
    by (simp add: map_of_build_namespace auto_imports_default sample_world_def update_conv')
  show ?thesis
    using helpers_are_never_shadowed[of sample_world default_valves
        "[(''math'', Obj 7), (''quick_stats'', Obj 8)]" "''math''" "Obj 7"] m
    by simp
qed

end
